theory Spec2Isabelle
  imports Main "HOL-Library.AList" "HOL-Library.Multiset"
begin

section \<open>Exceptions\<close>

text \<open>
  The exceptions the modelled code can raise.  A function that may raise returns
  \<open>error + 'a\<close>, with \<open>Inl\<close> for the exception.
\<close>

datatype error = AttributeError | NameError | IndexError | KeyError | ValueError | TypeError

definition bind :: "error + 'a \<Rightarrow> ('a \<Rightarrow> error + 'b) \<Rightarrow> error + 'b" where
  "bind m f = (case m of Inl e \<Rightarrow> Inl e | Inr x \<Rightarrow> f x)"

section \<open>The element hierarchy (structures.py, microplanning level)\<close>

text \<open>
  The attribute \<open>id\<close>: \<open>Element.__init__\<close> stores the integer 0, \<open>PlaceHolder.__init__\<close>
  stores its argument (a name, a number or \<open>None\<close>).
\<close>

datatype ident = IntId int | StrId string | NoneId

text \<open>
  \<open>_features\<close> is a Python dict from feature names to feature values, both text.  A dict
  keeps insertion order and has unique keys; it is modelled as an association list whose
  operations keep the keys unique.  Two dicts are equal when they hold the same keys with
  the same values, in any order (\<open>dict_eq\<close>).
\<close>

type_synonym features = "(string \<times> string) list"

definition dict_eq :: "features \<Rightarrow> features \<Rightarrow> bool" where
  "dict_eq f g = list_all (\<lambda>k. map_of f k = map_of g k) (map fst f @ map fst g)"

text \<open>The four subclasses of \<open>Phrase\<close> that add no slot of their own.\<close>

datatype phrase_class = VP | PP | AdvP | AdjP

text \<open>
  One constructor per concrete class.  Every object carries \<open>id\<close> and \<open>_features\<close>
  (class \<open>Element\<close>); the phrase classes carry the attributes of \<open>Phrase.__init__\<close>
  (\<open>discourse_fn\<close>, \<open>front_modifier\<close>, \<open>pre_modifier\<close>, \<open>head\<close>, \<open>complement\<close>,
  \<open>post_modifier\<close>); \<open>Clause\<close> adds \<open>subj\<close> and \<open>vp\<close>, \<open>NP\<close> adds \<open>spec\<close>.  The
  attributes \<open>type\<close> and \<open>_visitor_name\<close> are fixed by the class's constructor and
  assigned nowhere else, so they are functions of the class (\<open>type_of\<close>, \<open>visitor_name\<close>).
  \<open>None\<close> in a single-valued slot is \<open>None\<close> of the option type.
\<close>

datatype element =
    String (elem_id: ident) (features: features) (val: string)
  | Word (elem_id: ident) (features: features) (word: "string option") (pos: "string option")
  | PlaceHolder (elem_id: ident) (features: features) (ph_value: "element option")
  | Phrase (cls: phrase_class) (elem_id: ident) (features: features)
      (discourse_fn: "string option")
      (front_modifier: "element list") (pre_modifier: "element list")
      (head: "element option")
      (complement: "element list") (post_modifier: "element list")
  | Clause (elem_id: ident) (features: features)
      (discourse_fn: "string option")
      (front_modifier: "element list") (pre_modifier: "element list")
      (head: "element option")
      (complement: "element list") (post_modifier: "element list")
      (subj: "element option") (vp: "element option")
  | NP (elem_id: ident) (features: features)
      (discourse_fn: "string option")
      (front_modifier: "element list") (pre_modifier: "element list")
      (head: "element option")
      (complement: "element list") (post_modifier: "element list")
      (spec: "element option")
  | CC (elem_id: ident) (features: features) (coords: "element list")

fun phrase_type :: "phrase_class \<Rightarrow> string" where
  "phrase_type VP = ''VERB_PHRASE''"
| "phrase_type PP = ''PREPOSITIONAL_PHRASE''"
| "phrase_type AdvP = ''ADVERB_PHRASE''"
| "phrase_type AdjP = ''ADJECTIVE_PHRASE''"

fun phrase_visitor :: "phrase_class \<Rightarrow> string" where
  "phrase_visitor VP = ''visit_vp''"
| "phrase_visitor PP = ''visit_pp''"
| "phrase_visitor AdvP = ''visit_pp''"
| "phrase_visitor AdjP = ''visit_pp''"

fun visitor_name :: "element \<Rightarrow> string" where
  "visitor_name (String i f v) = ''visit_string''"
| "visitor_name (Word i f w p) = ''visit_word''"
| "visitor_name (PlaceHolder i f v) = ''visit_placeholder''"
| "visitor_name (Phrase c i f d fm pm h co po) = phrase_visitor c"
| "visitor_name (Clause i f d fm pm h co po s v) = ''visit_clause''"
| "visitor_name (NP i f d fm pm h co po sp) = ''visit_np''"
| "visitor_name (CC i f cs) = ''visit_cc''"

fun is_phrase :: "element \<Rightarrow> bool" where
  "is_phrase (Phrase c i f d fm pm h co po) = True"
| "is_phrase (Clause i f d fm pm h co po s v) = True"
| "is_phrase (NP i f d fm pm h co po sp) = True"
| "is_phrase _ = False"

fun is_leaf :: "element \<Rightarrow> bool" where
  "is_leaf (String i f v) = True"
| "is_leaf (Word i f w p) = True"
| "is_leaf (PlaceHolder i f v) = True"
| "is_leaf _ = False"

fun is_PlaceHolder :: "element \<Rightarrow> bool" where
  "is_PlaceHolder (PlaceHolder i f v) = True"
| "is_PlaceHolder _ = False"

subsection \<open>Equality (\<open>__eq__\<close>)\<close>

text \<open>
  Each class's \<open>__eq__\<close> tests \<open>isinstance(other, <its class>)\<close>, compares its own
  attributes with \<open>==\<close> and calls the base class's \<open>__eq__\<close>; \<open>Element.__eq__\<close> compares
  \<open>id\<close>, \<open>_visitor_name\<close> and \<open>_features\<close>.  \<open>VP\<close>, \<open>PP\<close>, \<open>AdvP\<close> and \<open>AdjP\<close> inherit
  \<open>Phrase.__eq__\<close>, which compares \<open>type\<close>.  Objects of two different classes are never
  equal: either an \<open>isinstance\<close> test fails, or \<open>type\<close> differs (a \<open>Clause\<close> has type
  \<open>CLAUSE\<close>, an \<open>NP\<close> \<open>NOUN_PHRASE\<close>), which is the last equation of \<open>elem_eq\<close>.
  Lists are compared element by element (\<open>elems_eq\<close>), an optional slot is equal to
  another when both are \<open>None\<close> or both hold equal elements (\<open>opt_eq\<close>).  \<open>NP.__eq__\<close>
  compares \<open>head\<close> itself before \<open>Phrase.__eq__\<close> compares it again.
\<close>

fun elem_eq :: "element \<Rightarrow> element \<Rightarrow> bool"
  and elems_eq :: "element list \<Rightarrow> element list \<Rightarrow> bool"
  and opt_eq :: "element option \<Rightarrow> element option \<Rightarrow> bool" where
  "elem_eq (String i f v) (String i' f' v') = (v = v' \<and> i = i' \<and> dict_eq f f')"
| "elem_eq (Word i f w p) (Word i' f' w' p') = (w = w' \<and> p = p' \<and> i = i' \<and> dict_eq f f')"
| "elem_eq (PlaceHolder i f v) (PlaceHolder i' f' v') =
     (i = i' \<and> opt_eq v v' \<and> i = i' \<and> dict_eq f f')"
| "elem_eq (Phrase c i f d fm pm h co po) (Phrase c' i' f' d' fm' pm' h' co' po') =
     (phrase_type c = phrase_type c' \<and> d = d' \<and> elems_eq fm fm' \<and> elems_eq pm pm' \<and>
      opt_eq h h' \<and> elems_eq co co' \<and> elems_eq po po' \<and>
      i = i' \<and> phrase_visitor c = phrase_visitor c' \<and> dict_eq f f')"
| "elem_eq (Clause i f d fm pm h co po s v) (Clause i' f' d' fm' pm' h' co' po' s' v') =
     (opt_eq s s' \<and> opt_eq v v' \<and>
      d = d' \<and> elems_eq fm fm' \<and> elems_eq pm pm' \<and>
      opt_eq h h' \<and> elems_eq co co' \<and> elems_eq po po' \<and>
      i = i' \<and> dict_eq f f')"
| "elem_eq (NP i f d fm pm h co po sp) (NP i' f' d' fm' pm' h' co' po' sp') =
     (opt_eq sp sp' \<and> opt_eq h h' \<and>
      d = d' \<and> elems_eq fm fm' \<and> elems_eq pm pm' \<and>
      opt_eq h h' \<and> elems_eq co co' \<and> elems_eq po po' \<and>
      i = i' \<and> dict_eq f f')"
| "elem_eq (CC i f cs) (CC i' f' cs') = (elems_eq cs cs' \<and> i = i' \<and> dict_eq f f')"
| "elem_eq _ _ = False"
| "elems_eq [] [] = True"
| "elems_eq (x # xs) (y # ys) = (elem_eq x y \<and> elems_eq xs ys)"
| "elems_eq _ _ = False"
| "opt_eq None None = True"
| "opt_eq (Some x) (Some y) = elem_eq x y"
| "opt_eq _ _ = False"

text \<open>\<open>p in lst\<close>: some item of the list equals \<open>p\<close>.\<close>

definition contains :: "element list \<Rightarrow> element \<Rightarrow> bool" where
  "contains lst p = list_ex (\<lambda>q. elem_eq q p) lst"

subsection \<open>The feature store\<close>

fun set_features :: "features \<Rightarrow> element \<Rightarrow> element" where
  "set_features g (String i f v) = String i g v"
| "set_features g (Word i f w p) = Word i g w p"
| "set_features g (PlaceHolder i f v) = PlaceHolder i g v"
| "set_features g (Phrase c i f d fm pm h co po) = Phrase c i g d fm pm h co po"
| "set_features g (Clause i f d fm pm h co po s v) = Clause i g d fm pm h co po s v"
| "set_features g (NP i f d fm pm h co po sp) = NP i g d fm pm h co po sp"
| "set_features g (CC i f cs) = CC i g cs"

text \<open>\<open>self._features[feature] = value\<close>: overwrite in place, or add at the end.\<close>

definition add_feature :: "string \<Rightarrow> string \<Rightarrow> element \<Rightarrow> element" where
  "add_feature feature v e = set_features (AList.update feature v (features e)) e"

definition has_feature :: "string \<Rightarrow> element \<Rightarrow> bool" where
  "has_feature feature e = (map_of (features e) feature \<noteq> None)"

definition get_feature :: "string \<Rightarrow> element \<Rightarrow> error + string" where
  "get_feature feature e =
     (case map_of (features e) feature of None \<Rightarrow> Inl KeyError | Some v \<Rightarrow> Inr v)"

definition feature :: "string \<Rightarrow> element \<Rightarrow> string option" where
  "feature feat e = (if has_feature feat e then map_of (features e) feat else None)"

text \<open>
  \<open>del_feature(feat, val=None)\<close>.  The argument \<open>val\<close> is \<open>None\<close> or a feature value.
  \<^verbatim>\<open>
  if feat in self._features:
      if val is not None: del self._features[feat]
      elif val == self._features[feat]: del self._features[feat]
  \<close>
  In the second branch \<open>val\<close> is \<open>None\<close> and is compared with the stored value.
\<close>

definition del_feature :: "string \<Rightarrow> string option \<Rightarrow> element \<Rightarrow> element" where
  "del_feature feat v e =
     (if has_feature feat e then
        (if v \<noteq> None then set_features (AList.delete feat (features e)) e
         else if v = map_of (features e) feat
           then set_features (AList.delete feat (features e)) e
         else e)
      else e)"

subsection \<open>Constructors and the modifier lists\<close>

text \<open>A parameter that may be raw text (\<open>str\<close>) or an element.\<close>

datatype param = Str string | Elt element

definition String_init :: "string \<Rightarrow> element" where
  "String_init s = String (IntId 0) [] s"

text \<open>\<open>fn = lambda x: String(x) if isinstance(x, str) else x\<close>\<close>

fun to_element :: "param \<Rightarrow> element" where
  "to_element (Str s) = String_init s"
| "to_element (Elt e) = e"

definition strings_to_elements :: "param list \<Rightarrow> element list" where
  "strings_to_elements params = map to_element params"

text \<open>\<open>_add_to_list\<close>: \<open>for p in ...: if p not in lst: lst.append(p)\<close>\<close>

fun add_all :: "element list \<Rightarrow> element list \<Rightarrow> element list" where
  "add_all lst [] = lst"
| "add_all lst (p # ps) = add_all (if \<not> contains lst p then lst @ [p] else lst) ps"

definition add_to_list :: "element list \<Rightarrow> param list \<Rightarrow> element list" where
  "add_to_list lst mods = add_all lst (strings_to_elements mods)"

text \<open>
  Assignment to a slot of a phrase object.  The methods that use them are defined in
  \<open>Phrase\<close> and inherited by every phrase class; on another class the attribute does
  not exist and the calling method is not found (\<open>AttributeError\<close>).
\<close>

fun upd_front_modifier :: "element list \<Rightarrow> element \<Rightarrow> element" where
  "upd_front_modifier x (Phrase c i f d fm pm h co po) = Phrase c i f d x pm h co po"
| "upd_front_modifier x (Clause i f d fm pm h co po s v) = Clause i f d x pm h co po s v"
| "upd_front_modifier x (NP i f d fm pm h co po sp) = NP i f d x pm h co po sp"
| "upd_front_modifier x e = e"

fun upd_pre_modifier :: "element list \<Rightarrow> element \<Rightarrow> element" where
  "upd_pre_modifier x (Phrase c i f d fm pm h co po) = Phrase c i f d fm x h co po"
| "upd_pre_modifier x (Clause i f d fm pm h co po s v) = Clause i f d fm x h co po s v"
| "upd_pre_modifier x (NP i f d fm pm h co po sp) = NP i f d fm x h co po sp"
| "upd_pre_modifier x e = e"

fun upd_head :: "element option \<Rightarrow> element \<Rightarrow> element" where
  "upd_head x (Phrase c i f d fm pm h co po) = Phrase c i f d fm pm x co po"
| "upd_head x (Clause i f d fm pm h co po s v) = Clause i f d fm pm x co po s v"
| "upd_head x (NP i f d fm pm h co po sp) = NP i f d fm pm x co po sp"
| "upd_head x e = e"

fun upd_complement :: "element list \<Rightarrow> element \<Rightarrow> element" where
  "upd_complement x (Phrase c i f d fm pm h co po) = Phrase c i f d fm pm h x po"
| "upd_complement x (Clause i f d fm pm h co po s v) = Clause i f d fm pm h x po s v"
| "upd_complement x (NP i f d fm pm h co po sp) = NP i f d fm pm h x po sp"
| "upd_complement x e = e"

fun upd_post_modifier :: "element list \<Rightarrow> element \<Rightarrow> element" where
  "upd_post_modifier x (Phrase c i f d fm pm h co po) = Phrase c i f d fm pm h co x"
| "upd_post_modifier x (Clause i f d fm pm h co po s v) = Clause i f d fm pm h co x s v"
| "upd_post_modifier x (NP i f d fm pm h co po sp) = NP i f d fm pm h co x sp"
| "upd_post_modifier x e = e"

definition add_front_modifier :: "param list \<Rightarrow> element \<Rightarrow> error + element" where
  "add_front_modifier mods e =
     (if is_phrase e then Inr (upd_front_modifier (add_to_list (front_modifier e) mods) e)
      else Inl AttributeError)"

definition add_pre_modifier :: "param list \<Rightarrow> element \<Rightarrow> error + element" where
  "add_pre_modifier mods e =
     (if is_phrase e then Inr (upd_pre_modifier (add_to_list (pre_modifier e) mods) e)
      else Inl AttributeError)"

definition add_complement :: "param list \<Rightarrow> element \<Rightarrow> error + element" where
  "add_complement mods e =
     (if is_phrase e then Inr (upd_complement (add_to_list (complement e) mods) e)
      else Inl AttributeError)"

definition add_post_modifier :: "param list \<Rightarrow> element \<Rightarrow> error + element" where
  "add_post_modifier mods e =
     (if is_phrase e then Inr (upd_post_modifier (add_to_list (post_modifier e) mods) e)
      else Inl AttributeError)"

text \<open>
  \<open>CC.add_coordinate\<close>: \<open>for e in self._strings_to_elements(*elts): self.coords.append(e)\<close>
  (the test \<open>if e not in self.coords\<close> is commented out in the source).
\<close>

fun add_coordinate :: "param list \<Rightarrow> element \<Rightarrow> error + element" where
  "add_coordinate elts (CC i f cs) = Inr (CC i f (cs @ strings_to_elements elts))"
| "add_coordinate elts e = Inl AttributeError"

text \<open>\<open>CC.__init__(*coords, conj='and')\<close>\<close>

definition CC_init :: "param list \<Rightarrow> string \<Rightarrow> element" where
  "CC_init cs cj = add_feature ''conj'' cj (CC (IntId 0) [] (strings_to_elements cs))"

subsection \<open>The object of a verb phrase (\<open>VP.get_object\<close>, \<open>remove_object\<close>, \<open>set_object\<close>)\<close>

text \<open>
  Reading an attribute an object does not have raises \<open>AttributeError\<close>.  The instance
  attributes are the ones the constructors assign (\<open>id\<close>, \<open>_visitor_name\<close>, \<open>_features\<close>
  and the fields of each class above); no class defines a property or a \<open>__getattr__\<close>.
  The three methods of \<open>VP\<close> read \<open>c.features\<close>, and \<open>StrVisitor.visit_cc\<close> and
  \<open>CC.__str__\<close> read \<open>node.conj\<close>: neither \<open>features\<close> nor \<open>conj\<close> is an attribute of
  any class (the dict is \<open>_features\<close>, the conjunction is the feature \<open>conj\<close> in it).
\<close>

definition no_attribute :: "element \<Rightarrow> string \<Rightarrow> error + 'a" where
  "no_attribute obj name = Inl AttributeError"

text \<open>\<open>Phrase.set_head\<close>: \<open>self.head = String(elt) if isinstance(elt, str) else elt\<close>\<close>

definition set_head :: "param option \<Rightarrow> element \<Rightarrow> error + element" where
  "set_head elt e =
     (if is_phrase e then Inr (upd_head (map_option to_element elt) e) else Inl AttributeError)"

definition VP_init :: "param option \<Rightarrow> param list \<Rightarrow> element" where
  "VP_init h compl =
     Phrase VP (IntId 0) [] None [] [] (map_option to_element h) (add_to_list [] compl) []"

fun get_object_loop :: "element list \<Rightarrow> error + element option" where
  "get_object_loop [] = Inr None"
| "get_object_loop (c # cs) =
     bind (no_attribute c ''features'') (\<lambda>fs :: features.
       if map_of fs ''discourseFunction'' \<noteq> None \<and>
          map_of fs ''discourseFunction'' = Some ''OBJECT''
       then Inr (Some c) else get_object_loop cs)"

fun get_object :: "element \<Rightarrow> error + element option" where
  "get_object (Phrase VP i f d fm pm h co po) = get_object_loop co"
| "get_object e = Inl AttributeError"

fun remove_object_loop :: "element list \<Rightarrow> element list \<Rightarrow> error + element list" where
  "remove_object_loop compls [] = Inr compls"
| "remove_object_loop compls (c # cs) =
     bind (no_attribute c ''features'') (\<lambda>fs :: features.
       if map_of fs ''discourseFunction'' \<noteq> None \<and>
          map_of fs ''discourseFunction'' = Some ''OBJECT''
       then remove_object_loop compls cs else remove_object_loop (compls @ [c]) cs)"

fun remove_object :: "element \<Rightarrow> error + element" where
  "remove_object (Phrase VP i f d fm pm h co po) =
     bind (remove_object_loop [] co) (\<lambda>compls. Inr (Phrase VP i f d fm pm h compls po))"
| "remove_object e = Inl AttributeError"

fun set_object :: "param option \<Rightarrow> element \<Rightarrow> error + element" where
  "set_object obj (Phrase VP i f d fm pm h co po) =
     bind (remove_object (Phrase VP i f d fm pm h co po)) (\<lambda>self.
       case obj of None \<Rightarrow> Inr self
       | Some p \<Rightarrow>
           bind (no_attribute (to_element p) ''features'') (\<lambda>fs :: features.
             Inr (upd_complement
                   (set_features (AList.update ''discourseFunction'' ''OBJECT'' fs) (to_element p)
                      # complement self) self)))"
| "set_object obj e = Inl AttributeError"

subsection \<open>Rendering to text\<close>

text \<open>\<open>str\<close> of the attribute \<open>id\<close>; \<open>str.strip()\<close>; \<open>sep.join(...)\<close>.\<close>

definition digit_char :: "nat \<Rightarrow> char" where
  "digit_char n = char_of (48 + n)"

function str_nat :: "nat \<Rightarrow> string" where
  "str_nat n = (if n < 10 then [digit_char n] else str_nat (n div 10) @ [digit_char (n mod 10)])"
  by pat_completeness auto
termination
  by (relation "measure (\<lambda>n. n)") auto

definition str_int :: "int \<Rightarrow> string" where
  "str_int i = (if i < 0 then CHR ''-'' # str_nat (nat (- i)) else str_nat (nat i))"

fun str_ident :: "ident \<Rightarrow> string" where
  "str_ident (IntId n) = str_int n"
| "str_ident (StrId s) = s"
| "str_ident NoneId = ''None''"

definition is_space :: "char \<Rightarrow> bool" where
  "is_space c = (let n = (of_char c :: nat) in n = 32 \<or> (9 \<le> n \<and> n \<le> 13) \<or> (28 \<le> n \<and> n \<le> 31))"

definition strip :: "string \<Rightarrow> string" where
  "strip s = rev (dropWhile is_space (rev (dropWhile is_space s)))"

fun join :: "string \<Rightarrow> string list \<Rightarrow> string" where
  "join sep [] = []"
| "join sep [x] = x"
| "join sep (x # y # ys) = x @ sep @ join sep (y # ys)"

text \<open>
  \<open>__str__\<close> of each class (\<open>str(x)\<close>): \<open>String\<close>, \<open>Word\<close>, \<open>PlaceHolder\<close> (through
  \<open>to_str\<close>), \<open>Phrase\<close> (inherited by \<open>VP\<close>, \<open>PP\<close>, \<open>AdvP\<close>, \<open>AdjP\<close>), \<open>Clause\<close>, \<open>NP\<close>
  and \<open>CC\<close>.  \<open>CC.__str__\<close> reads \<open>self.conj\<close> in the first iteration of its loop.
\<close>

definition complementiser :: "features \<Rightarrow> string" where
  "complementiser f = (case map_of f ''COMPLEMENTISER'' of Some c \<Rightarrow> c | None \<Rightarrow> [])"

fun str_elem :: "element \<Rightarrow> error + string"
  and str_list :: "element list \<Rightarrow> error + string list"
  and str_opt :: "element option \<Rightarrow> error + string" where
  "str_elem (String i f v) = Inr v"
| "str_elem (Word i f w p) = Inr (case w of Some s \<Rightarrow> s | None \<Rightarrow> [])"
| "str_elem (PlaceHolder i f v) =
     (case v of Some x \<Rightarrow> str_elem x | None \<Rightarrow> Inr (str_ident i))"
| "str_elem (Phrase c i f d fm pm h co po) =
     bind (str_list fm) (\<lambda>sfm. bind (str_list pm) (\<lambda>spm. bind (str_opt h) (\<lambda>sh.
     bind (str_list co) (\<lambda>sco. bind (str_list po) (\<lambda>spo.
       Inr (join '' '' (filter (\<lambda>x. x \<noteq> [])
         [join '' '' sfm, join '' '' spm, sh, complementiser f, join '' '' sco, join '' '' spo])))))))"
| "str_elem (Clause i f d fm pm h co po s v) =
     bind (case s of Some x \<Rightarrow> bind (str_elem x) (\<lambda>t. Inr [t]) | None \<Rightarrow> Inr []) (\<lambda>ss.
     bind (case v of Some x \<Rightarrow> bind (str_elem x) (\<lambda>t. Inr [t]) | None \<Rightarrow> Inr []) (\<lambda>sv.
       Inr (join '' '' (ss @ sv))))"
| "str_elem (NP i f d fm pm h co po sp) =
     bind (case sp of Some x \<Rightarrow> bind (str_elem x) (\<lambda>s. Inr (s @ '' '')) | None \<Rightarrow> Inr []) (\<lambda>ssp.
     bind (str_list fm) (\<lambda>sfm. bind (str_list pm) (\<lambda>spm. bind (str_opt h) (\<lambda>sh.
     bind (str_list co) (\<lambda>sco. bind (str_list po) (\<lambda>spo.
       Inr (ssp @ join '' '' (filter (\<lambda>x. x \<noteq> [])
         [join '' '' sfm, join '' '' spm, sh, complementiser f, join '' '' sco, join '' '' spo]))))))))"
| "str_elem (CC i f cs) =
     (if cs = [] then Inr [] else no_attribute (CC i f cs) ''conj'')"
| "str_list [] = Inr []"
| "str_list (x # xs) = bind (str_elem x) (\<lambda>s. bind (str_list xs) (\<lambda>ss. Inr (s # ss)))"
| "str_opt None = Inr []"
| "str_opt (Some x) = str_elem x"

text \<open>
  \<open>StrVisitor\<close>.  \<open>Element.accept\<close> calls the visitor's method named by
  \<open>_visitor_name\<close>; the argument \<open>text\<close> is \<open>visitor.text\<close> before the call, the result is
  \<open>visitor.text\<close> after it.  \<open>visit_vp\<close> and \<open>visit_pp\<close> are \<open>IVisitor.visit_phrase\<close>,
  \<open>visit_np\<close> visits \<open>spec\<close> and then is \<open>visit_phrase\<close> too; \<open>visit_clause\<close> visits
  \<open>subj\<close> and \<open>vp\<close> only.  \<open>visit_cc\<close>:
  \<^verbatim>\<open>
  if len(node.coords) > 2:
      for c in node.coords[:-1]:
          c.accept(self)
          if node.conj == 'and': self.text += ','
          else: self.text += ' ' + node.conj
      self.text = self.text[:-1]
      self.text += ' ' + node.conj
      node.coords[-1].accept(self)
  elif len(node.coords) > 1:
      node.coords[0].accept(self)
      self.text += ' ' + node.get_feature('conj')
      node.coords[1].accept(self)
  elif len(node.coords) > 0:
      node.coords[0].accept(self)
  \<close>
\<close>

definition negation :: "features \<Rightarrow> string \<Rightarrow> string" where
  "negation f text =
     (if map_of f ''NEGATION'' \<noteq> None \<and> map_of f ''NEGATION'' = Some ''TRUE''
      then text @ '' not'' else text)"

fun to_str :: "element \<Rightarrow> error + string" where
  "to_str (String i f v) = Inr v"
| "to_str (Word i f w p) = Inr (case w of Some s \<Rightarrow> s | None \<Rightarrow> [])"
| "to_str (PlaceHolder i f v) = (case v of Some x \<Rightarrow> str_elem x | None \<Rightarrow> Inr (str_ident i))"
| "to_str e = Inr []"

lemma size_list_butlast: "size_list f (butlast xs) \<le> size_list f xs"
  by (induction xs) auto

lemma size_mem_less: "x \<in> set xs \<Longrightarrow> f x < Suc (size_list f xs)"
  by (induction xs) auto

lemma size_nth_less: "n < length xs \<Longrightarrow> f (xs ! n) < Suc (size_list f xs)"
  by (rule size_mem_less) simp

lemma size_last_less: "n < length xs \<Longrightarrow> f (last xs) < Suc (size_list f xs)"
  by (rule size_mem_less) (cases xs, simp_all)

function (sequential) accept :: "element \<Rightarrow> string \<Rightarrow> error + string"
  and accept_all :: "element list \<Rightarrow> string \<Rightarrow> error + string"
  and accept_opt :: "element option \<Rightarrow> string \<Rightarrow> error + string"
  and visit_cc_loop :: "element \<Rightarrow> element list \<Rightarrow> string \<Rightarrow> error + string" where
  "accept (String i f v) text = bind (to_str (String i f v)) (\<lambda>s. Inr (text @ '' '' @ s))"
| "accept (Word i f w p) text = bind (to_str (Word i f w p)) (\<lambda>s. Inr (text @ '' '' @ s))"
| "accept (PlaceHolder i f v) text =
     bind (to_str (PlaceHolder i f v)) (\<lambda>s. Inr (text @ '' '' @ s))"
| "accept (Clause i f d fm pm h co po s v) text =
     bind (accept_opt s (negation f text)) (\<lambda>t. accept_opt v t)"
| "accept (NP i f d fm pm h co po sp) text =
     bind (accept_opt sp text) (\<lambda>t0.
     bind (accept_all fm (negation f t0)) (\<lambda>t1.
     bind (accept_all pm t1) (\<lambda>t2.
     bind (accept_opt h t2) (\<lambda>t3.
     bind (accept_all co
            (case map_of f ''COMPLEMENTISER'' of Some c \<Rightarrow> t3 @ '' '' @ c | None \<Rightarrow> t3)) (\<lambda>t4.
     accept_all po t4)))))"
| "accept (Phrase c i f d fm pm h co po) text =
     bind (accept_all fm (negation f text)) (\<lambda>t1.
     bind (accept_all pm t1) (\<lambda>t2.
     bind (accept_opt h t2) (\<lambda>t3.
     bind (accept_all co
            (case map_of f ''COMPLEMENTISER'' of Some c \<Rightarrow> t3 @ '' '' @ c | None \<Rightarrow> t3)) (\<lambda>t4.
     accept_all po t4))))"
| "accept (CC i f cs) text =
     (if length cs > 2 then
        bind (visit_cc_loop (CC i f cs) (butlast cs) text) (\<lambda>t.
        bind (no_attribute (CC i f cs) ''conj'') (\<lambda>cj.
          accept (last cs) (butlast t @ '' '' @ cj)))
      else if length cs > 1 then
        bind (accept (cs ! 0) text) (\<lambda>t.
        bind (get_feature ''conj'' (CC i f cs)) (\<lambda>cj.
          accept (cs ! 1) (t @ '' '' @ cj)))
      else if length cs > 0 then accept (cs ! 0) text
      else Inr text)"
| "accept_all [] text = Inr text"
| "accept_all (c # cs) text = bind (accept c text) (\<lambda>t. accept_all cs t)"
| "accept_opt None text = Inr text"
| "accept_opt (Some c) text = accept c text"
| "visit_cc_loop node [] text = Inr text"
| "visit_cc_loop node (c # cs) text =
     bind (accept c text) (\<lambda>t.
     bind (no_attribute node ''conj'') (\<lambda>cj.
       visit_cc_loop node cs (if cj = ''and'' then t @ '','' else t @ '' '' @ cj)))"

  by pat_completeness auto
termination
  apply (relation "measure (\<lambda>x. case x of
      Inl (Inl (e, t)) \<Rightarrow> size e
    | Inl (Inr (es, t)) \<Rightarrow> size_list size es
    | Inr (Inl (eo, t)) \<Rightarrow> size_option size eo
    | Inr (Inr (n, es, t)) \<Rightarrow> size_list size es)")
                      apply (simp_all add: size_list_butlast le_imp_less_Suc size_nth_less size_last_less)
  apply (rule size_nth_less)
  apply (case_tac cs)
   apply simp_all
  done

text \<open>\<open>v = StrVisitor(); node.accept(v); v.to_str()\<close>, where \<open>to_str\<close> strips the text.\<close>

definition StrVisitor_str :: "element \<Rightarrow> error + string" where
  "StrVisitor_str e = bind (accept e []) (\<lambda>t. Inr (strip t))"

section \<open>Properties\<close>

subsection \<open>The feature store\<close>

lemma features_set_features [simp]: "features (set_features g e) = g"
  by (cases e) simp_all

lemma del_feature_None: "del_feature feat None e = e"
  by (auto simp: del_feature_def has_feature_def)

lemma del_feature_Some:
  "has_feature feat e \<Longrightarrow>
     features (del_feature feat (Some v) e) = AList.delete feat (features e)"
  by (simp add: del_feature_def)

text \<open>
  C5.  \<open>del_feature(key)\<close> without an expected value should remove the key, and
  \<open>del_feature(key, expected)\<close> should remove it only when the stored value is the expected
  one.  The code does the opposite: on an element that stores \<open>TENSE = PAST\<close>,
  \<open>del_feature('TENSE')\<close> leaves the feature in place, and
  \<open>del_feature('TENSE', 'FUTURE')\<close> removes it although the stored value is another one.
\<close>

theorem del_feature_inverted:
  "features (del_feature ''TENSE'' None (String (IntId 0) [(''TENSE'', ''PAST'')] ''x''))
     = [(''TENSE'', ''PAST'')] \<and>
   features (del_feature ''TENSE'' (Some ''FUTURE'')
       (String (IntId 0) [(''TENSE'', ''PAST'')] ''x'')) = []"
  by (simp add: del_feature_def has_feature_def)

subsection \<open>Adding to a coordination and to a modifier list\<close>

lemma contains_add_all: "contains lst p \<Longrightarrow> add_all lst [p] = lst"
  by simp

text \<open>
  C10.  \<open>add_coordinate(e)\<close> appends \<open>e\<close> at the end of \<open>coords\<close> whatever \<open>coords\<close>
  holds, while the add-operations of a phrase leave a list unchanged that already holds an
  element equal to \<open>e\<close>.
\<close>

theorem add_coordinate_appends:
  "add_coordinate [Elt e] (CC i f cs) = Inr (CC i f (cs @ [e])) \<and>
   (is_phrase p \<and> contains (front_modifier p) e \<longrightarrow> add_front_modifier [Elt e] p = Inr p) \<and>
   (is_phrase p \<and> contains (pre_modifier p) e \<longrightarrow> add_pre_modifier [Elt e] p = Inr p) \<and>
   (is_phrase p \<and> contains (complement p) e \<longrightarrow> add_complement [Elt e] p = Inr p) \<and>
   (is_phrase p \<and> contains (post_modifier p) e \<longrightarrow> add_post_modifier [Elt e] p = Inr p)"
  by (cases p)
     (simp_all add: strings_to_elements_def add_to_list_def add_front_modifier_def
        add_pre_modifier_def add_complement_def add_post_modifier_def)

theorem add_coordinate_appends_witness:
  "add_coordinate [Elt (String (IntId 0) [] ''a'')] (CC (IntId 0) [] [String (IntId 0) [] ''a''])
     = Inr (CC (IntId 0) [] [String (IntId 0) [] ''a'', String (IntId 0) [] ''a'']) \<and>
   add_front_modifier [Elt (String (IntId 0) [] ''a'')]
       (Phrase VP (IntId 0) [] None [String (IntId 0) [] ''a''] [String (IntId 0) [] ''a'']
          None [String (IntId 0) [] ''a''] [String (IntId 0) [] ''a''])
     = Inr (Phrase VP (IntId 0) [] None [String (IntId 0) [] ''a''] [String (IntId 0) [] ''a'']
          None [String (IntId 0) [] ''a''] [String (IntId 0) [] ''a'']) \<and>
   add_complement [Elt (String (IntId 0) [] ''a'')]
       (Phrase VP (IntId 0) [] None [String (IntId 0) [] ''a''] [String (IntId 0) [] ''a'']
          None [String (IntId 0) [] ''a''] [String (IntId 0) [] ''a''])
     = Inr (Phrase VP (IntId 0) [] None [String (IntId 0) [] ''a''] [String (IntId 0) [] ''a'']
          None [String (IntId 0) [] ''a''] [String (IntId 0) [] ''a''])"
  using add_coordinate_appends [of "String (IntId 0) [] ''a''" "IntId 0" "[]"
      "[String (IntId 0) [] ''a'']"
      "Phrase VP (IntId 0) [] None [String (IntId 0) [] ''a''] [String (IntId 0) [] ''a'']
          None [String (IntId 0) [] ''a''] [String (IntId 0) [] ''a'']"]
  by (simp add: contains_def dict_eq_def)

subsection \<open>The object of a verb phrase\<close>

lemma get_object_raises:
  "co \<noteq> [] \<Longrightarrow> get_object (Phrase VP i f d fm pm h co po) = Inl AttributeError"
  by (cases co) (simp_all add: bind_def no_attribute_def)

lemma get_object_empty: "get_object (Phrase VP i f d fm pm h [] po) = Inr None"
  by simp

lemma set_object_raises:
  "set_object (Some p) (Phrase VP i f d fm pm h co po) = Inl AttributeError"
  by (cases co) (simp_all add: bind_def no_attribute_def)

text \<open>
  C8.  \<open>get_object\<close> should return the first complement tagged \<open>OBJECT\<close> and
  \<open>set_object\<close> should leave exactly one complement tagged \<open>OBJECT\<close>.  Both read
  \<open>c.features\<close>, which no element has: \<open>get_object\<close> raises \<open>AttributeError\<close> on a verb
  phrase with a complement, and \<open>set_object\<close> raises it for every object, also on a verb
  phrase without complements, so no complement is ever tagged.
\<close>

theorem vp_object_raises:
  "get_object (VP_init (Some (Str ''put'')) [Str ''it'']) = Inl AttributeError \<and>
   set_object (Some (Str ''it'')) (VP_init (Some (Str ''put'')) []) = Inl AttributeError"
  by (simp add: VP_init_def add_to_list_def strings_to_elements_def contains_def
      bind_def no_attribute_def)

subsection \<open>Rendering a coordination\<close>

lemma visit_cc_zero: "StrVisitor_str (CC_init [] cj) = Inr []"
  by (simp add: StrVisitor_str_def CC_init_def add_feature_def strings_to_elements_def
      bind_def strip_def)

lemma accept_CC_one: "accept (CC i f [a]) text = accept a text"
  by simp

lemma accept_CC_two:
  "accept (CC_init [Elt a, Elt b] cj) text =
     bind (accept a text) (\<lambda>t. accept b (t @ '' '' @ cj))"
  by (simp add: CC_init_def add_feature_def strings_to_elements_def get_feature_def bind_def)

lemma visit_cc_two_and:
  "StrVisitor_str (CC_init [Str ''A'', Str ''B''] ''and'') = Inr ''A and B''"
  by (simp add: StrVisitor_str_def CC_init_def add_feature_def strings_to_elements_def
      String_init_def bind_def get_feature_def strip_def is_space_def)

lemma visit_cc_two_or:
  "StrVisitor_str (CC_init [Str ''A'', Str ''B''] ''or'') = Inr ''A or B''"
  by (simp add: StrVisitor_str_def CC_init_def add_feature_def strings_to_elements_def
      String_init_def bind_def get_feature_def strip_def is_space_def)

lemma accept_CC_many:
  "length cs > 2 \<Longrightarrow> accept (hd cs) text = Inr t \<Longrightarrow> accept (CC i f cs) text = Inl AttributeError"
  by (cases cs) (simp_all add: bind_def no_attribute_def)

text \<open>
  C3.  Three coordinates should render as \<open>A, B, and C\<close> (\<open>A, B or C\<close> with the
  conjunction \<open>or\<close>).  For more than two coordinates \<open>visit_cc\<close> reads \<open>node.conj\<close>, an
  attribute no \<open>CC\<close> has (the two-coordinate branch reads the feature \<open>conj\<close>), so the
  renderer raises \<open>AttributeError\<close> and produces no text.
\<close>

theorem visit_cc_three_raises:
  "StrVisitor_str (CC_init [Str ''A'', Str ''B'', Str ''C''] ''and'') = Inl AttributeError \<and>
   StrVisitor_str (CC_init [Str ''A'', Str ''B'', Str ''C''] ''or'') = Inl AttributeError"
  by (simp add: StrVisitor_str_def CC_init_def add_feature_def strings_to_elements_def
      String_init_def bind_def no_attribute_def)

end
